theory Spec2Isabelle
  imports Main "HOL-Library.Multiset"
begin

section \<open>The resilient fetch pipeline of hltv-aio\<close>

text \<open>
  The development embeds the class \<open>Hltv\<close> of \<open>src/hltv-aio/hltv-aio.py\<close>: its
  configuration (\<open>__init__\<close>, \<open>config\<close>), the proxy pool (\<open>get_proxy\<close>,
  \<open>switch_proxy\<close>), the challenge detector (\<open>cloudflare_check\<close>) and the retry chain
  (\<open>fetch\<close>, \<open>call_again\<close>).

  Conventions. A Python \<open>str\<close> is a \<open>string\<close>; a \<open>char\<close> stands for a code point below
  256. \<open>None\<close> is \<open>None\<close> of an option type. An exception is a value \<open>Inl e\<close> of a sum.
  The file system, the event loop's sleeps and the HTTP requests issued are fields of an
  explicit \<open>world\<close>. One task runs at a time (no interleaving of concurrent fetches), and
  the interpreter's recursion limit is not modelled.
\<close>

subsection \<open>Strings and text files\<close>

abbreviation nl :: char where
  "nl \<equiv> CHR 0x0A"

abbreviation cr :: char where
  "cr \<equiv> CHR 0x0D"

definition isspace :: "char \<Rightarrow> bool" where
  \<comment> \<open>\<open>str.isspace\<close> on one character, for code points below 256\<close>
  "isspace c =
     (let n = (of_char c :: nat)
      in (9 \<le> n \<and> n \<le> 13) \<or> (28 \<le> n \<and> n \<le> 32) \<or> n = 133 \<or> n = 160)"

definition strip :: "string \<Rightarrow> string" where
  \<comment> \<open>\<open>str.strip()\<close>: leading and trailing whitespace removed\<close>
  "strip s = rev (dropWhile isspace (rev (dropWhile isspace s)))"

fun universal_newlines :: "string \<Rightarrow> string" where
  \<comment> \<open>what reading a file opened in text mode (\<open>newline=None\<close>) makes of its content: a
      carriage return followed by a line feed, and a carriage return alone, become one
      line feed\<close>
  "universal_newlines [] = []"
| "universal_newlines [c] = [if c = cr then nl else c]"
| "universal_newlines (c # d # ds) =
     (if c = cr \<and> d = nl then nl # universal_newlines ds
      else if c = cr then nl # universal_newlines (d # ds)
      else c # universal_newlines (d # ds))"

fun split_lines :: "string \<Rightarrow> string list" where
  \<comment> \<open>a text cut after every line feed, the line feeds kept; what follows the last line
      feed, if anything, is a last line without one\<close>
  "split_lines [] = []"
| "split_lines (c # cs) =
     (if c = nl then [nl] # split_lines cs
      else (case split_lines cs of [] \<Rightarrow> [[c]] | l # ls \<Rightarrow> (c # l) # ls))"

definition readlines :: "string \<Rightarrow> string list" where
  \<comment> \<open>\<open>file.readlines()\<close> from position 0 of a file opened in text mode\<close>
  "readlines content = split_lines (universal_newlines content)"

definition readline :: "string \<Rightarrow> string" where
  \<comment> \<open>\<open>file.readline()\<close> from position 0; the empty string at end of file\<close>
  "readline content = (case readlines content of [] \<Rightarrow> [] | l # _ \<Rightarrow> l)"

definition overwrite :: "string \<Rightarrow> string \<Rightarrow> string" where
  \<comment> \<open>a file opened \<open>"r+"\<close>, \<open>seek(0)\<close>, then \<open>written\<close> written and the file closed: the
      file is not truncated, so what the old content has beyond the written part stays.
      A line feed is written as it is (the line separator of the platform is a line
      feed), and a character takes one position in the file (ASCII content)\<close>
  "overwrite old written = written @ drop (length written) old"

subsection \<open>Parsed documents\<close>

text \<open>
  \<open>BeautifulSoup(result, "lxml")\<close> is a library call; the parser is a parameter
  \<open>f :: string \<Rightarrow> soup\<close> of everything that parses. A parsed document is the list of
  top-level nodes of the tree; \<open>find(id=v)\<close> and \<open>get_text()\<close> are the two queries the
  pipeline makes.
\<close>

datatype node = Text string | Tag string "(string \<times> string) list" "node list"

type_synonym soup = "node list"

fun find_id :: "string \<Rightarrow> node \<Rightarrow> node option"
  and find_id_list :: "string \<Rightarrow> node list \<Rightarrow> node option" where
  \<comment> \<open>\<open>find(id=v)\<close>: the first tag, in document order, whose attribute \<open>id\<close> is \<open>v\<close>\<close>
  "find_id v (Text s) = None"
| "find_id v (Tag name attrs contents) =
     (if map_of attrs ''id'' = Some v then Some (Tag name attrs contents)
      else find_id_list v contents)"
| "find_id_list v [] = None"
| "find_id_list v (n # ns) =
     (case find_id v n of Some e \<Rightarrow> Some e | None \<Rightarrow> find_id_list v ns)"

fun get_text :: "node \<Rightarrow> string" where
  \<comment> \<open>\<open>get_text()\<close>: the strings below the node, concatenated in document order\<close>
  "get_text (Text s) = s"
| "get_text (Tag name attrs contents) = concat (map get_text contents)"

definition challenge_phrase :: string where
  "challenge_phrase = ''Enable JavaScript and cookies to continue''"

definition cloudflare_check :: "(string \<Rightarrow> soup) \<Rightarrow> string \<Rightarrow> bool" where
  "cloudflare_check f result =
     (let page = f result;
          challenge_page = find_id_list ''challenge-error-title'' page
      in case challenge_page of
           None \<Rightarrow> False
         | Some e \<Rightarrow> if challenge_phrase = get_text e then True else False)"

subsection \<open>The object and its configuration\<close>

record Hltv =
  MAX_DELAY :: int
  timeout :: int
  USE_PROXY :: bool
  PROXY_PATH :: "string option"
  PROXY_LIST :: "string list option"
  DEBUG :: bool
  PROXY_FILE_PATH :: "string option"
    \<comment> \<open>an attribute that only \<open>config\<close> creates; \<open>None\<close> while it does not exist\<close>

definition init :: "int \<Rightarrow> int \<Rightarrow> bool \<Rightarrow> string option \<Rightarrow> string list option \<Rightarrow> bool \<Rightarrow> Hltv" where
  "init max_delay timeout' use_proxy proxy_path proxy_list debug =
     \<lparr> MAX_DELAY = max_delay, timeout = timeout', USE_PROXY = use_proxy,
       PROXY_PATH = proxy_path, PROXY_LIST = proxy_list, DEBUG = debug,
       PROXY_FILE_PATH = None \<rparr>"

text \<open>Truthiness of an optional argument: \<open>None\<close>, \<open>0\<close>, \<open>False\<close>, \<open>""\<close> and \<open>[]\<close> are falsy.\<close>

definition truthy_int :: "int option \<Rightarrow> bool" where
  "truthy_int a = (case a of None \<Rightarrow> False | Some n \<Rightarrow> n \<noteq> 0)"

definition truthy_bool :: "bool option \<Rightarrow> bool" where
  "truthy_bool a = (case a of None \<Rightarrow> False | Some b \<Rightarrow> b)"

definition truthy_seq :: "'a list option \<Rightarrow> bool" where
  "truthy_seq a = (case a of None \<Rightarrow> False | Some xs \<Rightarrow> xs \<noteq> [])"

record config_args =
  arg_max_delay :: "int option"
  arg_timeout :: "int option"
  arg_use_proxy :: "bool option"
  arg_proxy_file_path :: "string option"
  arg_proxy_list :: "string list option"
  arg_debug :: "bool option"

definition no_args :: config_args where
  \<comment> \<open>the defaults of \<open>config\<close>: every argument \<open>None\<close>\<close>
  "no_args = \<lparr> arg_max_delay = None, arg_timeout = None, arg_use_proxy = None,
               arg_proxy_file_path = None, arg_proxy_list = None, arg_debug = None \<rparr>"

definition config :: "config_args \<Rightarrow> Hltv \<Rightarrow> Hltv" where
  "config a self =
     (let s1 = (if truthy_int (arg_max_delay a)
                then self\<lparr>MAX_DELAY := the (arg_max_delay a)\<rparr> else self);
          s2 = (if truthy_int (arg_timeout a)
                then s1\<lparr>timeout := the (arg_timeout a)\<rparr> else s1);
          s3 = (if truthy_bool (arg_use_proxy a)
                then s2\<lparr>USE_PROXY := the (arg_use_proxy a)\<rparr> else s2);
          s4 = (if truthy_seq (arg_proxy_file_path a)
                then s3\<lparr>PROXY_FILE_PATH := arg_proxy_file_path a\<rparr> else s3);
          s5 = (if truthy_seq (arg_proxy_list a)
                then s4\<lparr>PROXY_LIST := arg_proxy_list a\<rparr> else s4)
      in (if truthy_bool (arg_debug a)
          then s5\<lparr>DEBUG := the (arg_debug a)\<rparr> else s5))"

subsection \<open>Exceptions, the outside world, the transport\<close>

datatype exn =
    ClientProxyConnectionError | ClientResponseError | ClientOSError
  | ServerDisconnectedError | TimeoutError | ClientHttpProxyError
  | IndexError | TypeError | FileNotFoundError
  | OtherError

definition caught :: "exn \<Rightarrow> bool" where
  \<comment> \<open>the classes named in the \<open>except\<close> clause of \<open>fetch\<close>\<close>
  "caught e = (e \<in> set [ClientProxyConnectionError, ClientResponseError, ClientOSError,
                         ServerDisconnectedError, TimeoutError, ClientHttpProxyError])"

datatype outcome =
    Raise exn \<comment> \<open>\<open>session.get\<close> raises\<close>
  | Response int "exn + string" \<comment> \<open>a status code, and what \<open>response.text()\<close> gives or raises\<close>

type_synonym transport = "nat \<Rightarrow> string \<Rightarrow> string option \<Rightarrow> outcome"
  \<comment> \<open>the outcome of the \<open>k\<close>-th request ever issued, for its url and proxy\<close>

record world =
  files :: "string \<rightharpoonup> string" \<comment> \<open>path to content\<close>
  sleeps :: "int list" \<comment> \<open>the arguments of \<open>asyncio.sleep\<close>, oldest first\<close>
  requests :: "(string \<times> string option) list" \<comment> \<open>url and proxy of every GET, oldest first\<close>

type_synonym state = "Hltv \<times> world"

subsection \<open>The proxy pool\<close>

definition get_proxy :: "Hltv \<Rightarrow> world \<Rightarrow> exn + string option" where
  \<comment> \<open>reads only; the result \<open>Inr None\<close> is the implicit \<open>return None\<close> after a blank
      first line\<close>
  "get_proxy self w =
     (if truthy_seq (PROXY_PATH self) then
        (case files w (the (PROXY_PATH self)) of
           None \<Rightarrow> Inl FileNotFoundError
         | Some content \<Rightarrow>
             (let proxy = strip (readline content)
              in if proxy \<noteq> [] then Inr (Some proxy) else Inr None))
      else
        (case PROXY_LIST self of
           None \<Rightarrow> Inl TypeError
         | Some [] \<Rightarrow> Inl IndexError
         | Some (p # ps) \<Rightarrow> Inr (Some p)))"

definition kept_lines :: "string option \<Rightarrow> string list \<Rightarrow> string list" where
  \<comment> \<open>the lines the loop of \<open>switch_proxy\<close> writes back: \<open>line.strip() != proxy\<close>\<close>
  "kept_lines proxy proxies = filter (\<lambda>line. Some (strip line) \<noteq> proxy) proxies"

definition switch_proxy :: "string option \<Rightarrow> state \<Rightarrow> (exn + unit) \<times> state" where
  "switch_proxy proxy s =
     (case s of (self, w) \<Rightarrow>
        if truthy_seq (PROXY_PATH self) then
          (let path = the (PROXY_PATH self) in
           case files w path of
             None \<Rightarrow> (Inl FileNotFoundError, s)
           | Some content \<Rightarrow>
               (let proxies = readlines content;
                    body = concat (kept_lines proxy proxies)
                in case proxy of
                     None \<Rightarrow>
                       (Inl TypeError, self, w\<lparr>files := (files w)(path \<mapsto> overwrite content body)\<rparr>)
                   | Some p \<Rightarrow>
                       (Inr (), self,
                        w\<lparr>files := (files w)(path \<mapsto> overwrite content (body @ p @ [nl]))\<rparr>)))
        else
          (case PROXY_LIST self of
             None \<Rightarrow> (Inl TypeError, s)
           | Some [] \<Rightarrow> (Inl IndexError, s)
           | Some (p # ps) \<Rightarrow> (Inr (), self\<lparr>PROXY_LIST := Some (drop 1 (p # ps) @ [p])\<rparr>, w)))"

subsection \<open>Backoff and the retry chain\<close>

definition next_delay :: "int \<Rightarrow> int \<Rightarrow> int" where
  \<comment> \<open>the delay \<open>call_again\<close> passes on without proxies: \<open>if delay < self.MAX_DELAY: delay += 1\<close>\<close>
  "next_delay delay max_delay = (if delay < max_delay then delay + 1 else delay)"

text \<open>
  \<open>fetch\<close> and \<open>call_again\<close> call each other without bound. The first argument is fuel:
  the number of requests the chain may still issue; \<open>None\<close> says that the chain has not
  returned within it. A result \<open>Some (r, s)\<close> is the value returned or the exception raised
  to the caller of \<open>fetch\<close>, with the state left behind.
\<close>

fun fetch :: "nat \<Rightarrow> transport \<Rightarrow> (string \<Rightarrow> soup) \<Rightarrow> string \<Rightarrow> int \<Rightarrow> state
                \<Rightarrow> ((exn + soup) \<times> state) option"
  and call_again :: "nat \<Rightarrow> transport \<Rightarrow> (string \<Rightarrow> soup) \<Rightarrow> string \<Rightarrow> string option \<Rightarrow> int \<Rightarrow> state
                \<Rightarrow> ((exn + soup) \<times> state) option" where
  "fetch 0 T f url delay s = None"
| "fetch (Suc n) T f url delay s =
     (case s of (self, w) \<Rightarrow>
        (case (if USE_PROXY self then get_proxy self w else Inr (Some [])) of
           Inl e \<Rightarrow> Some (Inl e, s)
         | Inr proxy \<Rightarrow>
             (let w1 = w\<lparr>sleeps := sleeps w @ [delay]\<rparr>;
                  s2 = (self, w1\<lparr>requests := requests w1 @ [(url, proxy)]\<rparr>)
              in case T (length (requests w1)) url proxy of
                   Raise e \<Rightarrow>
                     if caught e then call_again n T f url proxy delay s2
                     else Some (Inl e, s2)
                 | Response status text \<Rightarrow>
                     if status = 403 \<or> status = 404 then call_again n T f url proxy delay s2
                     else
                       (case text of
                          Inl e \<Rightarrow>
                            if caught e then call_again n T f url proxy delay s2
                            else Some (Inl e, s2)
                        | Inr result \<Rightarrow>
                            if cloudflare_check f result
                            then call_again n T f url proxy delay s2
                            else Some (Inr (f result), s2)))))"
| "call_again n T f url proxy delay s =
     (if USE_PROXY (fst s) then
        (case switch_proxy proxy s of
           (Inl e, s') \<Rightarrow> Some (Inl e, s')
         | (Inr u, s') \<Rightarrow>
             (case get_proxy (fst s') (snd s') of
                Inl e \<Rightarrow> Some (Inl e, s')
              | Inr new_proxy \<Rightarrow> fetch n T f url 0 s'))
      else fetch n T f url (next_delay delay (MAX_DELAY (fst s))) s)"

subsection \<open>Notions used to state the properties\<close>

fun tags :: "node \<Rightarrow> node list"
  and tags_list :: "node list \<Rightarrow> node list" where
  \<comment> \<open>the tags of a document, in document order\<close>
  "tags (Text s) = []"
| "tags (Tag name attrs contents) = Tag name attrs contents # tags_list contents"
| "tags_list [] = []"
| "tags_list (n # ns) = tags n @ tags_list ns"

definition has_id :: "string \<Rightarrow> node \<Rightarrow> bool" where
  "has_id v e = (case e of Text s \<Rightarrow> False | Tag name attrs contents \<Rightarrow> map_of attrs ''id'' = Some v)"

definition failed :: "(string \<Rightarrow> soup) \<Rightarrow> outcome \<Rightarrow> bool" where
  \<comment> \<open>the three outcomes \<open>fetch\<close> answers with \<open>call_again\<close>: a caught exception, a status
      403 or 404, a challenge page\<close>
  "failed f out =
     (case out of
        Raise e \<Rightarrow> caught e
      | Response status text \<Rightarrow>
          status = 403 \<or> status = 404 \<or>
          (case text of Inl e \<Rightarrow> caught e | Inr result \<Rightarrow> cloudflare_check f result))"

datatype verdict = Retry | Return soup | Throw exn

definition classify :: "(string \<Rightarrow> soup) \<Rightarrow> outcome \<Rightarrow> verdict" where
  \<comment> \<open>what \<open>fetch\<close> makes of the outcome of one request, in the order of its tests\<close>
  "classify f out =
     (case out of
        Raise e \<Rightarrow> if caught e then Retry else Throw e
      | Response status text \<Rightarrow>
          if status = 403 \<or> status = 404 then Retry
          else (case text of
                  Inl e \<Rightarrow> if caught e then Retry else Throw e
                | Inr result \<Rightarrow> if cloudflare_check f result then Retry else Return (f result)))"

definition lines_text :: "string list \<Rightarrow> string" where
  \<comment> \<open>a proxy file with one entry per line, every line ended by a line feed\<close>
  "lines_text es = concat (map (\<lambda>e. e @ [nl]) es)"




subsection \<open>Concrete inputs for the examples\<close>

definition new_world :: "(string \<rightharpoonup> string) \<Rightarrow> world" where
  \<comment> \<open>a world with the given files in which nothing has happened yet\<close>
  "new_world fs = \<lparr> files = fs, sleeps = [], requests = [] \<rparr>"

definition sample_parse :: "string \<Rightarrow> soup" where
  \<comment> \<open>the trees the lxml builder makes of four small bodies; every other body is mapped
      to the empty document, which no example uses\<close>
  "sample_parse body =
     (if body = ''<p>Enable JavaScript and cookies to continue</p>'' then
        [Tag ''html'' [] [Tag ''body'' [] [Tag ''p'' []
           [Text ''Enable JavaScript and cookies to continue'']]]]
      else if body = ''<h1 id=challenge-error-title>Enable JavaScript and cookies to continue</h1>'' then
        [Tag ''html'' [] [Tag ''body'' [] [Tag ''h1'' [(''id'', ''challenge-error-title'')]
           [Text ''Enable JavaScript and cookies to continue'']]]]
      else if body = ''<h1 id=challenge-error-title>Enable JavaScript and cookies to continue.</h1>'' then
        [Tag ''html'' [] [Tag ''body'' [] [Tag ''h1'' [(''id'', ''challenge-error-title'')]
           [Text ''Enable JavaScript and cookies to continue.'']]]]
      else if body = ''<p>ok</p>'' then
        [Tag ''html'' [] [Tag ''body'' [] [Tag ''p'' [] [Text ''ok'']]]]
      else [])"

definition replies :: "outcome list \<Rightarrow> transport" where
  \<comment> \<open>a simulated transport: the \<open>k\<close>-th request gets the \<open>k\<close>-th listed outcome, and an
      exception \<open>fetch\<close> does not catch once the list is used up\<close>
  "replies outs k url proxy = (if k < length outs then outs ! k else Raise OtherError)"

definition via_proxy :: "(string \<times> outcome) list \<Rightarrow> transport" where
  \<comment> \<open>a simulated transport whose outcome depends on the proxy the request goes through\<close>
  "via_proxy table k url proxy =
     (case proxy of
        None \<Rightarrow> Raise OtherError
      | Some p \<Rightarrow> (case map_of table p of None \<Rightarrow> Raise OtherError | Some out \<Rightarrow> out))"

section \<open>Properties\<close>

subsection \<open>Backoff\<close>

text \<open>
  Claim C3, as the code has it. For \<open>d < max\<close> the next delay is \<open>d + 1\<close>. For \<open>d \<ge> max\<close>
  the delay is kept as it is: it equals \<open>max\<close> when \<open>d = max\<close> (idempotent at the
  ceiling), and a delay above \<open>max\<close> is not lowered to \<open>max\<close>. The step never decreases
  the delay, is monotonic in \<open>d\<close>, and stays at or below \<open>max\<close> from every \<open>d \<le> max\<close>.
  Without proxies \<open>call_again\<close> retries with exactly this delay.
\<close>

theorem next_delay_step:
  "(d < m \<longrightarrow> next_delay d m = d + 1) \<and> (m \<le> d \<longrightarrow> next_delay d m = d)
   \<and> next_delay m m = m \<and> d \<le> next_delay d m \<and> (d \<le> m \<longrightarrow> next_delay d m \<le> m)
   \<and> (d \<le> d' \<longrightarrow> next_delay d m \<le> next_delay d' m)
   \<and> (\<not> USE_PROXY (fst s) \<longrightarrow>
        call_again n T f url proxy d s = fetch n T f url (next_delay d (MAX_DELAY (fst s))) s)"
  by (simp add: next_delay_def)

theorem next_delay_step_witness:
  "(3::int) < 15 \<and> next_delay 3 15 = 3 + 1 \<and> (15::int) \<le> 20 \<and> next_delay 20 15 = 20
   \<and> next_delay 15 15 = 15 \<and> next_delay 3 15 \<le> 15 \<and> next_delay 3 15 \<le> next_delay 20 15
   \<and> \<not> USE_PROXY (init 15 5 False None None False)
   \<and> call_again 1 (replies [Response 403 (Inr [])]) sample_parse ''u'' (Some []) 3
          (init 15 5 False None None False, new_world Map.empty)
        = fetch 1 (replies [Response 403 (Inr [])]) sample_parse ''u'' 4
          (init 15 5 False None None False, new_world Map.empty)"
  using next_delay_step [of 3 15 20 "(init 15 5 False None None False, new_world Map.empty)" 1
      "replies [Response 403 (Inr [])]" sample_parse "''u''" "Some []"]
    next_delay_step [of 20 15] next_delay_step [of 15 15]
  by (simp add: init_def)

text \<open>
  The claim as the specification states it asks for \<open>max\<close> at every \<open>d \<ge> max\<close>; at
  \<open>d = 20\<close>, \<open>max = 15\<close> (a caller passing \<open>delay=20\<close> to \<open>fetch\<close>) the code keeps 20.
\<close>

theorem next_delay_not_clamped: "(15::int) \<le> 20 \<and> next_delay 20 15 \<noteq> 15"
  by (simp add: next_delay_def)

subsection \<open>Rotation of an in-memory pool\<close>

text \<open>
  Claim C10. With the pool held in memory (\<open>PROXY_PATH\<close> unset or empty) and at least one
  entry in it, \<open>switch_proxy\<close> moves the current head to the tail, a left rotation by one,
  whatever endpoint it is given: the argument \<open>e\<close> is free in the statement, so it may be
  another entry of the list, an endpoint that does not occur in it, or \<open>None\<close>.
\<close>

theorem switch_proxy_memory_ignores_argument:
  assumes "\<not> truthy_seq (PROXY_PATH self)" and "PROXY_LIST self = Some xs" and "1 \<le> length xs"
  shows "switch_proxy e (self, w) = (Inr (), self\<lparr>PROXY_LIST := Some (tl xs @ [hd xs])\<rparr>, w)
         \<and> tl xs @ [hd xs] = rotate1 xs"
  using assms by (cases xs) (simp_all add: switch_proxy_def)

theorem switch_proxy_memory_ignores_argument_witness:
  "\<not> truthy_seq (PROXY_PATH (init 15 5 True None (Some [''A'', ''B'', ''C'']) False))
   \<and> PROXY_LIST (init 15 5 True None (Some [''A'', ''B'', ''C'']) False) = Some [''A'', ''B'', ''C'']
   \<and> 1 \<le> length [''A'', ''B'', ''C'']
   \<and> switch_proxy (Some ''Z'') (init 15 5 True None (Some [''A'', ''B'', ''C'']) False, new_world Map.empty)
       = (Inr (), init 15 5 True None (Some [''B'', ''C'', ''A'']) False, new_world Map.empty)
   \<and> switch_proxy (Some ''B'') (init 15 5 True None (Some [''A'', ''B'', ''C'']) False, new_world Map.empty)
       = (Inr (), init 15 5 True None (Some [''B'', ''C'', ''A'']) False, new_world Map.empty)"
  using switch_proxy_memory_ignores_argument
      [of "init 15 5 True None (Some [''A'', ''B'', ''C'']) False" "[''A'', ''B'', ''C'']"
          "Some ''Z''" "new_world Map.empty"]
    switch_proxy_memory_ignores_argument
      [of "init 15 5 True None (Some [''A'', ''B'', ''C'']) False" "[''A'', ''B'', ''C'']"
          "Some ''B''" "new_world Map.empty"]
  by (simp add: init_def truthy_seq_def)

subsection \<open>Reconfiguration\<close>

text \<open>
  What \<open>config\<close> does to each field. An argument that is truthy overwrites its field and
  every other argument leaves its field alone, with one exception: a truthy
  \<open>proxy_file_path\<close> is stored in a new attribute \<open>PROXY_FILE_PATH\<close>, while the path that
  \<open>__init__\<close> sets and that \<open>get_proxy\<close> and \<open>switch_proxy\<close> read is \<open>PROXY_PATH\<close>.
\<close>

lemma config_fields:
  "MAX_DELAY (config a self) = (if truthy_int (arg_max_delay a) then the (arg_max_delay a) else MAX_DELAY self)"
  "timeout (config a self) = (if truthy_int (arg_timeout a) then the (arg_timeout a) else timeout self)"
  "USE_PROXY (config a self) = (if truthy_bool (arg_use_proxy a) then the (arg_use_proxy a) else USE_PROXY self)"
  "PROXY_LIST (config a self) = (if truthy_seq (arg_proxy_list a) then arg_proxy_list a else PROXY_LIST self)"
  "DEBUG (config a self) = (if truthy_bool (arg_debug a) then the (arg_debug a) else DEBUG self)"
  "PROXY_PATH (config a self) = PROXY_PATH self"
  by (simp_all add: config_def Let_def)

lemma config_debug_only: "config (no_args\<lparr>arg_debug := Some True\<rparr>) self = self\<lparr>DEBUG := True\<rparr>"
  by (simp add: config_def no_args_def truthy_int_def truthy_bool_def truthy_seq_def)

text \<open>
  Claim C9 at the input where the code departs from it. An object built with
  \<open>proxy_path="old.txt"\<close> is reconfigured with \<open>proxy_file_path="new.txt"\<close> and nothing else.
  The claim has the supplied, non-empty proxy source overwrite the prior one. In the code
  \<open>PROXY_PATH\<close> is still \<open>"old.txt"\<close>, the new path sits in \<open>PROXY_FILE_PATH\<close>, which nothing
  reads, and \<open>get_proxy\<close> still takes the head of \<open>old.txt\<close>.
\<close>

theorem config_proxy_file_path_not_applied:
  "PROXY_PATH (config (no_args\<lparr>arg_proxy_file_path := Some ''new.txt''\<rparr>)
                 (init 15 5 True (Some ''old.txt'') None False)) = Some ''old.txt''
   \<and> PROXY_FILE_PATH (config (no_args\<lparr>arg_proxy_file_path := Some ''new.txt''\<rparr>)
                 (init 15 5 True (Some ''old.txt'') None False)) = Some ''new.txt''
   \<and> get_proxy (config (no_args\<lparr>arg_proxy_file_path := Some ''new.txt''\<rparr>)
                 (init 15 5 True (Some ''old.txt'') None False))
        (new_world [''old.txt'' \<mapsto> ''P1\<newline>'', ''new.txt'' \<mapsto> ''P2\<newline>'']) = Inr (Some ''P1'')"
  by (simp add: config_def no_args_def init_def truthy_int_def truthy_bool_def truthy_seq_def
      get_proxy_def new_world_def readline_def readlines_def strip_def isspace_def Let_def)

subsection \<open>The delay scenario\<close>

text \<open>
  Claim C7. Proxy mode is off and \<open>MAX_DELAY\<close> is 15. The transport answers the next two
  requests with status 403 and the third with status 200 and a body on which the challenge
  check is negative. Then \<open>fetch\<close>, called with the default delay 0, returns on the third
  request, for every fuel of at least three requests; it has slept 0, then 1, then 2
  seconds, one sleep before each request; and what it returns is the document parsed from
  the third body. The object is left as it was.
\<close>

theorem fetch_403_403_200:
  assumes "\<not> USE_PROXY self" and "MAX_DELAY self = 15"
    and "T (length (requests w)) url (Some []) = Response 403 t0"
    and "T (length (requests w) + 1) url (Some []) = Response 403 t1"
    and "T (length (requests w) + 2) url (Some []) = Response 200 (Inr body)"
    and "\<not> cloudflare_check f body"
  shows "fetch (Suc (Suc (Suc k))) T f url 0 (self, w) =
           Some (Inr (f body), self,
                 w\<lparr>sleeps := sleeps w @ [0, 1, 2],
                   requests := requests w @ [(url, Some []), (url, Some []), (url, Some [])]\<rparr>)"
  using assms by (simp add: next_delay_def Let_def)

theorem fetch_403_403_200_witness:
  "\<not> USE_PROXY (init 15 5 False None None False)
   \<and> MAX_DELAY (init 15 5 False None None False) = 15
   \<and> replies [Response 403 (Inr []), Response 403 (Inr []), Response 200 (Inr ''<p>ok</p>'')]
        2 ''https://www.hltv.org/matches'' (Some []) = Response 200 (Inr ''<p>ok</p>'')
   \<and> \<not> cloudflare_check sample_parse ''<p>ok</p>''
   \<and> fetch (Suc (Suc (Suc 0)))
        (replies [Response 403 (Inr []), Response 403 (Inr []), Response 200 (Inr ''<p>ok</p>'')])
        sample_parse ''https://www.hltv.org/matches'' 0
        (init 15 5 False None None False, new_world Map.empty)
       = Some (Inr [Tag ''html'' [] [Tag ''body'' [] [Tag ''p'' [] [Text ''ok'']]]],
               init 15 5 False None None False,
               \<lparr> files = Map.empty, sleeps = [0, 1, 2],
                 requests = [(''https://www.hltv.org/matches'', Some []),
                             (''https://www.hltv.org/matches'', Some []),
                             (''https://www.hltv.org/matches'', Some [])] \<rparr>)"
  using fetch_403_403_200
    [of "init 15 5 False None None False"
        "replies [Response 403 (Inr []), Response 403 (Inr []), Response 200 (Inr ''<p>ok</p>'')]"
        "new_world Map.empty" "''https://www.hltv.org/matches''" "Inr []" "Inr []" "''<p>ok</p>''"
        sample_parse 0]
  by (simp add: init_def new_world_def replies_def cloudflare_check_def sample_parse_def
      next_delay_def)

subsection \<open>The challenge detector\<close>

lemma find_append_case:
  "List.find P (xs @ ys) = (case List.find P xs of None \<Rightarrow> List.find P ys | Some x \<Rightarrow> Some x)"
  by (induction xs) auto

lemma find_id_is_first_tag:
  "find_id v n = List.find (has_id v) (tags n)"
  "find_id_list v ns = List.find (has_id v) (tags_list ns)"
  by (induction v n and v ns rule: find_id_find_id_list.induct)
     (simp_all add: has_id_def find_append_case split: option.splits)

text \<open>
  Claim C8, as the code has it. The detector looks at one element only: the first tag of
  the document, in document order, whose \<open>id\<close> attribute is \<open>challenge-error-title\<close>. It
  answers true exactly when that tag exists and its text is the challenge phrase,
  character for character. So a true answer implies that the document has an element
  whose text is exactly the phrase; the answer is false on the empty document, and false
  on every document none of whose elements has exactly the phrase as its text (a similar
  but different phrase).
\<close>

theorem cloudflare_check_first_id:
  "(cloudflare_check f result \<longleftrightarrow>
      (\<exists>e. List.find (has_id ''challenge-error-title'') (tags_list (f result)) = Some e
           \<and> get_text e = challenge_phrase))
   \<and> (cloudflare_check f result \<longrightarrow> (\<exists>e \<in> set (tags_list (f result)). get_text e = challenge_phrase))
   \<and> (f result = [] \<longrightarrow> \<not> cloudflare_check f result)
   \<and> ((\<forall>e \<in> set (tags_list (f result)). get_text e \<noteq> challenge_phrase) \<longrightarrow> \<not> cloudflare_check f result)"
proof -
  have iff: "cloudflare_check f result \<longleftrightarrow>
      (\<exists>e. List.find (has_id ''challenge-error-title'') (tags_list (f result)) = Some e
           \<and> get_text e = challenge_phrase)"
    by (auto simp: cloudflare_check_def find_id_is_first_tag(2) split: option.splits)
  have mem: "\<exists>e \<in> set (tags_list (f result)). get_text e = challenge_phrase"
    if "cloudflare_check f result"
  proof -
    from that iff obtain e where
      e: "List.find (has_id ''challenge-error-title'') (tags_list (f result)) = Some e"
      and t: "get_text e = challenge_phrase" by blast
    from e have "e \<in> set (tags_list (f result))"
      by (auto simp: find_Some_iff)
    with t show ?thesis by blast
  qed
  have empty: "\<not> cloudflare_check f result" if "f result = []"
    using that by (simp add: cloudflare_check_def)
  from iff mem empty show ?thesis by blast
qed

theorem cloudflare_check_first_id_witness:
  "cloudflare_check sample_parse ''<h1 id=challenge-error-title>Enable JavaScript and cookies to continue</h1>''
   \<and> List.find (has_id ''challenge-error-title'')
        (tags_list (sample_parse ''<h1 id=challenge-error-title>Enable JavaScript and cookies to continue</h1>''))
       = Some (Tag ''h1'' [(''id'', ''challenge-error-title'')] [Text ''Enable JavaScript and cookies to continue''])
   \<and> get_text (Tag ''h1'' [(''id'', ''challenge-error-title'')] [Text ''Enable JavaScript and cookies to continue''])
       = challenge_phrase
   \<and> sample_parse [] = [] \<and> \<not> cloudflare_check sample_parse []
   \<and> \<not> cloudflare_check sample_parse ''<h1 id=challenge-error-title>Enable JavaScript and cookies to continue.</h1>''"
  using cloudflare_check_first_id [of sample_parse "''<h1 id=challenge-error-title>Enable JavaScript and cookies to continue</h1>''"]
    cloudflare_check_first_id [of sample_parse "[]"]
    cloudflare_check_first_id [of sample_parse "''<h1 id=challenge-error-title>Enable JavaScript and cookies to continue.</h1>''"]
  by (simp add: sample_parse_def has_id_def challenge_phrase_def)

text \<open>
  The claim as the specification states it makes every element with the phrase as its
  text count. The document of \<open><p>Enable JavaScript and cookies to continue</p>\<close> has such
  an element, without the \<open>id\<close>, and the detector answers false.
\<close>

theorem cloudflare_check_needs_id:
  "Tag ''p'' [] [Text ''Enable JavaScript and cookies to continue'']
     \<in> set (tags_list (sample_parse ''<p>Enable JavaScript and cookies to continue</p>''))
   \<and> get_text (Tag ''p'' [] [Text ''Enable JavaScript and cookies to continue'']) = challenge_phrase
   \<and> \<not> cloudflare_check sample_parse ''<p>Enable JavaScript and cookies to continue</p>''"
  by (simp add: sample_parse_def challenge_phrase_def cloudflare_check_def)

subsection \<open>One request of the retry chain\<close>

text \<open>
  \<open>fetch\<close> with fuel for one more request, written with the classification of the
  request's outcome: it retries through \<open>call_again\<close>, returns the parsed document, or lets
  an exception through.
\<close>

lemma classify_Retry: "classify f out = Retry \<longleftrightarrow> failed f out"
  by (simp add: classify_def failed_def split: outcome.splits sum.splits)


lemma classify_Throw: "classify f out = Throw e \<Longrightarrow> \<not> caught e"
  by (auto simp: classify_def split: outcome.splits sum.splits if_splits)

lemma fetch_Suc:
  "fetch (Suc n) T f url d (self, w) =
     (case (if USE_PROXY self then get_proxy self w else Inr (Some [])) of
        Inl e \<Rightarrow> Some (Inl e, self, w)
      | Inr proxy \<Rightarrow>
          (case classify f (T (length (requests w)) url proxy) of
             Retry \<Rightarrow> call_again n T f url proxy d
                        (self, w\<lparr>sleeps := sleeps w @ [d], requests := requests w @ [(url, proxy)]\<rparr>)
           | Return doc \<Rightarrow>
               Some (Inr doc, self, w\<lparr>sleeps := sleeps w @ [d], requests := requests w @ [(url, proxy)]\<rparr>)
           | Throw e \<Rightarrow>
               Some (Inl e, self, w\<lparr>sleeps := sleeps w @ [d], requests := requests w @ [(url, proxy)]\<rparr>)))"
  by (simp add: classify_def Let_def del: call_again.simps split: sum.splits outcome.splits)

subsection \<open>What the retry chain returns\<close>





subsection \<open>Proxy files with one clean entry per line\<close>







text \<open>A carriage return ends a line as well, alone or before a line feed.\<close>

lemma readlines_carriage_returns:
  "readlines [CHR ''A'', cr, CHR ''B'', nl] = [''A\<newline>'', ''B\<newline>'']"
  "readlines [CHR ''A'', cr, nl, CHR ''B''] = [''A\<newline>'', ''B'']"
  by (simp_all add: readlines_def)









lemma lines_text_append: "lines_text (xs @ ys) = lines_text xs @ lines_text ys"
  by (simp add: lines_text_def)



subsection \<open>Rotating the head of the pool repeatedly\<close>




subsection \<open>Rotation as a permutation\<close>




subsection \<open>Rewriting the proxy file\<close>

text \<open>
  Claim C5 at inputs where the code departs from it. \<open>switch_proxy\<close> writes the kept lines
  and the rotated entry from position 0 and closes the file without truncating it. When
  it has written less than the file held, the end of the old content stays: with the
  entry twice in the file, \<open>A, A, B\<close> becomes \<open>B, A, B\<close>; with a padded line \<open>"A "\<close>, the
  file \<open>A, B\<close> becomes \<open>B, A\<close> and an empty line. And a last line without line feed is
  joined with the appended entry: the lines \<open>A\<close> and \<open>B\<close>, the second without its line
  feed, become the single line \<open>BA\<close>. The claim has
  the file hold exactly the unaffected lines, in order, and then the rotated entry.
\<close>

theorem switch_proxy_file_keeps_old_tail:
  "switch_proxy (Some ''A'')
     (init 15 5 True (Some ''proxies.txt'') None False,
      new_world [''proxies.txt'' \<mapsto> ''A\<newline>A\<newline>B\<newline>''])
     = (Inr (), init 15 5 True (Some ''proxies.txt'') None False,
        new_world [''proxies.txt'' \<mapsto> ''B\<newline>A\<newline>B\<newline>''])
   \<and> switch_proxy (Some ''A'')
     (init 15 5 True (Some ''proxies.txt'') None False,
      new_world [''proxies.txt'' \<mapsto> ''A \<newline>B\<newline>''])
     = (Inr (), init 15 5 True (Some ''proxies.txt'') None False,
        new_world [''proxies.txt'' \<mapsto> ''B\<newline>A\<newline>\<newline>''])
   \<and> switch_proxy (Some ''A'')
     (init 15 5 True (Some ''proxies.txt'') None False,
      new_world [''proxies.txt'' \<mapsto> ''A\<newline>B''])
     = (Inr (), init 15 5 True (Some ''proxies.txt'') None False,
        new_world [''proxies.txt'' \<mapsto> ''BA\<newline>''])"
  by (simp add: switch_proxy_def init_def truthy_seq_def new_world_def kept_lines_def
      readlines_def strip_def isspace_def overwrite_def Let_def)

subsection \<open>The retry handler on a pool file\<close>

text \<open>
  Claim C2 at an input where the code departs from it. Proxy mode is on, the pool is the
  file \<open>A, A, B\<close>, the request through \<open>A\<close> times out and the request through \<open>B\<close>
  succeeds. \<open>fetch\<close> retries at once (both sleeps are 0) through the new head \<open>B\<close> and
  returns, but the file it leaves is \<open>B, A, B\<close>: the failed proxy \<open>A\<close> is not at the
  tail, where the claim has the retry handler move it.
\<close>

theorem fetch_file_pool_failed_proxy_not_at_tail:
  "fetch (Suc (Suc 0))
     (via_proxy [(''A'', Raise TimeoutError), (''B'', Response 200 (Inr ''<p>ok</p>''))])
     sample_parse ''https://www.hltv.org/matches'' 0
     (init 15 5 True (Some ''proxies.txt'') None False,
      new_world [''proxies.txt'' \<mapsto> ''A\<newline>A\<newline>B\<newline>''])
   = Some (Inr [Tag ''html'' [] [Tag ''body'' [] [Tag ''p'' [] [Text ''ok'']]]],
           init 15 5 True (Some ''proxies.txt'') None False,
           \<lparr> files = [''proxies.txt'' \<mapsto> ''B\<newline>A\<newline>B\<newline>''], sleeps = [0, 0],
             requests = [(''https://www.hltv.org/matches'', Some ''A''),
                         (''https://www.hltv.org/matches'', Some ''B'')] \<rparr>)"
  by (simp add: switch_proxy_def get_proxy_def init_def truthy_seq_def new_world_def
      kept_lines_def readline_def readlines_def strip_def isspace_def overwrite_def Let_def via_proxy_def caught_def
      cloudflare_check_def sample_parse_def)

subsection \<open>Reading the head of an empty pool\<close>

text \<open>
  Claim C6 at an input where the code departs from it. Proxy mode is on and the pool is
  an empty file. \<open>get_proxy\<close> raises nothing and returns \<open>None\<close>; \<open>fetch\<close> issues the
  request with \<open>proxy=None\<close> and returns the document when the request succeeds; when it
  fails, \<open>switch_proxy(None)\<close> raises \<open>TypeError\<close>. The claim has the read of an empty
  pool fail at once, which is what the in-memory pool does (\<open>IndexError\<close>).
\<close>

theorem get_proxy_empty_file_no_error:
  "get_proxy (init 15 5 True (Some ''proxies.txt'') None False)
     (new_world [''proxies.txt'' \<mapsto> []]) = Inr None
   \<and> fetch (Suc 0) (replies [Response 200 (Inr ''<p>ok</p>'')])
       sample_parse ''https://www.hltv.org/matches'' 0
       (init 15 5 True (Some ''proxies.txt'') None False, new_world [''proxies.txt'' \<mapsto> []])
     = Some (Inr [Tag ''html'' [] [Tag ''body'' [] [Tag ''p'' [] [Text ''ok'']]]],
             init 15 5 True (Some ''proxies.txt'') None False,
             \<lparr> files = [''proxies.txt'' \<mapsto> []], sleeps = [0],
               requests = [(''https://www.hltv.org/matches'', None)] \<rparr>)
   \<and> fetch (Suc 0) (replies [Response 403 (Inr [])])
       sample_parse ''https://www.hltv.org/matches'' 0
       (init 15 5 True (Some ''proxies.txt'') None False, new_world [''proxies.txt'' \<mapsto> []])
     = Some (Inl TypeError,
             init 15 5 True (Some ''proxies.txt'') None False,
             \<lparr> files = [''proxies.txt'' \<mapsto> []], sleeps = [0],
               requests = [(''https://www.hltv.org/matches'', None)] \<rparr>)
   \<and> get_proxy (init 15 5 True None (Some []) False) (new_world Map.empty) = Inl IndexError"
  by (simp add: switch_proxy_def get_proxy_def init_def truthy_seq_def new_world_def
      kept_lines_def readline_def readlines_def strip_def overwrite_def Let_def replies_def
      cloudflare_check_def sample_parse_def)

subsection \<open>The retry handler where it works as specified\<close>

text \<open>
  With the pool in memory, a failed request through the head \<open>p\<close> makes \<open>fetch\<close> move \<open>p\<close>
  to the tail and go on with delay 0 and the new head; without proxies it goes on with the
  next delay. With the pool \<open>[P1, P2, P3]\<close>, failures through \<open>P1\<close> and \<open>P2\<close> and a success
  through \<open>P3\<close>, \<open>fetch\<close> returns and leaves the pool \<open>[P3, P1, P2]\<close>. An empty in-memory
  pool makes \<open>fetch\<close> raise \<open>IndexError\<close> before any sleep or request.
\<close>

lemma get_proxy_memory:
  "\<not> truthy_seq (PROXY_PATH self) \<Longrightarrow> PROXY_LIST self = Some (p # ps) \<Longrightarrow>
     get_proxy self w = Inr (Some p)"
  "\<not> truthy_seq (PROXY_PATH self) \<Longrightarrow> PROXY_LIST self = Some [] \<Longrightarrow>
     get_proxy self w = Inl IndexError"
  by (simp_all add: get_proxy_def)

lemma fetch_empty_memory_pool:
  "USE_PROXY self \<Longrightarrow> \<not> truthy_seq (PROXY_PATH self) \<Longrightarrow> PROXY_LIST self = Some [] \<Longrightarrow>
     fetch (Suc n) T f url d (self, w) = Some (Inl IndexError, self, w)"
  by (simp add: fetch_Suc get_proxy_memory del: fetch.simps)

lemma fetch_first_request_returns:
  "USE_PROXY self \<Longrightarrow> get_proxy self w = Inr proxy \<Longrightarrow>
   classify f (T (length (requests w)) url proxy) = Return doc \<Longrightarrow>
     fetch (Suc n) T f url d (self, w)
       = Some (Inr doc, self, w\<lparr>sleeps := sleeps w @ [d], requests := requests w @ [(url, proxy)]\<rparr>)"
  by (simp add: fetch_Suc del: fetch.simps)

lemma call_again_memory:
  assumes "USE_PROXY self" and "\<not> truthy_seq (PROXY_PATH self)" and "PROXY_LIST self = Some (p # ps)"
  shows "call_again n T f url proxy d (self, w)
           = fetch n T f url 0 (self\<lparr>PROXY_LIST := Some (ps @ [p])\<rparr>, w)"
proof -
  have "switch_proxy proxy (self, w) = (Inr (), self\<lparr>PROXY_LIST := Some (ps @ [p])\<rparr>, w)"
    using assms by (simp add: switch_proxy_def)
  moreover have "get_proxy (self\<lparr>PROXY_LIST := Some (ps @ [p])\<rparr>) w = Inr (Some (hd (ps @ [p])))"
    using assms by (cases ps) (simp_all add: get_proxy_def)
  ultimately show ?thesis using assms by simp
qed

lemma fetch_retry_memory:
  assumes "USE_PROXY self" and "\<not> truthy_seq (PROXY_PATH self)" and "PROXY_LIST self = Some (p # ps)"
    and "failed f (T (length (requests w)) url (Some p))"
  shows "fetch (Suc n) T f url d (self, w)
           = fetch n T f url 0
               (self\<lparr>PROXY_LIST := Some (ps @ [p])\<rparr>,
                w\<lparr>sleeps := sleeps w @ [d], requests := requests w @ [(url, Some p)]\<rparr>)"
proof -
  from assms have "classify f (T (length (requests w)) url (Some p)) = Retry"
    by (simp add: classify_Retry)
  with assms show ?thesis
    by (simp add: fetch_Suc get_proxy_memory call_again_memory del: fetch.simps call_again.simps)
qed




lemma fetch_three_proxies:
  assumes "USE_PROXY self" and "\<not> truthy_seq (PROXY_PATH self)"
    and "PROXY_LIST self = Some [P1, P2, P3]"
    and "failed f (T (length (requests w)) url (Some P1))"
    and "failed f (T (length (requests w) + 1) url (Some P2))"
    and "classify f (T (length (requests w) + 2) url (Some P3)) = Return doc"
  shows "fetch (Suc (Suc (Suc k))) T f url d (self, w)
           = Some (Inr doc, self\<lparr>PROXY_LIST := Some [P3, P1, P2]\<rparr>,
                   w\<lparr>sleeps := sleeps w @ [d, 0, 0],
                     requests := requests w @ [(url, Some P1), (url, Some P2), (url, Some P3)]\<rparr>)"
proof -
  let ?s1 = "self\<lparr>PROXY_LIST := Some [P2, P3, P1]\<rparr>"
  let ?w1 = "w\<lparr>sleeps := sleeps w @ [d], requests := requests w @ [(url, Some P1)]\<rparr>"
  let ?s2 = "self\<lparr>PROXY_LIST := Some [P3, P1, P2]\<rparr>"
  let ?w2 = "w\<lparr>sleeps := sleeps w @ [d, 0], requests := requests w @ [(url, Some P1), (url, Some P2)]\<rparr>"
  have a: "fetch (Suc (Suc (Suc k))) T f url d (self, w) = fetch (Suc (Suc k)) T f url 0 (?s1, ?w1)"
    using assms fetch_retry_memory [of self P1 "[P2, P3]" f T w url "Suc (Suc k)" d] by simp
  have b: "fetch (Suc (Suc k)) T f url 0 (?s1, ?w1) = fetch (Suc k) T f url 0 (?s2, ?w2)"
    using assms fetch_retry_memory [of ?s1 P2 "[P3, P1]" f T ?w1 url "Suc k" 0] by simp
  have c: "fetch (Suc k) T f url 0 (?s2, ?w2)
             = Some (Inr doc, ?s2, ?w2\<lparr>sleeps := sleeps ?w2 @ [0], requests := requests ?w2 @ [(url, Some P3)]\<rparr>)"
    using assms by (intro fetch_first_request_returns) (simp_all add: get_proxy_def)
  from a b c show ?thesis by simp
qed

subsection \<open>Fuel and exceptions\<close>

text \<open>
  A result does not depend on the fuel: once the chain returns within \<open>n\<close> requests, it
  returns the same with any larger fuel. And an exception that leaves the chain is never of
  a class the \<open>except\<close> clause names. In the source two of the three calls of \<open>call_again\<close>
  stand inside the \<open>try\<close> block; by the second fact the \<open>except\<close> clause never catches what
  comes out of them, which is why the model lets these exceptions pass.
\<close>

lemma call_again_fuel_step:
  assumes "\<And>d s. fetch n T f url d s = Some r \<Longrightarrow> fetch (n + k) T f url d s = Some r"
    and "call_again n T f url proxy d s = Some r"
  shows "call_again (n + k) T f url proxy d s = Some r"
  using assms by (auto split: if_splits prod.splits sum.splits)

lemma fetch_fuel_mono:
  "fetch n T f url d s = Some r \<Longrightarrow> fetch (n + k) T f url d s = Some r"
proof (induction n arbitrary: d s)
  case 0
  then show ?case by simp
next
  case (Suc n)
  obtain self w where s: "s = (self, w)" by (cases s)
  have ca: "call_again (n + k) T f url proxy d' s' = Some r"
    if "call_again n T f url proxy d' s' = Some r" for proxy d' s'
    using Suc.IH that by (rule call_again_fuel_step)
  from Suc.prems show ?case
    unfolding s add_Suc fetch_Suc
    by (auto simp del: call_again.simps split: sum.splits verdict.splits intro: ca)
qed

lemma switch_proxy_error: "switch_proxy p s = (Inl e, s') \<Longrightarrow> \<not> caught e"
  by (auto simp: switch_proxy_def caught_def Let_def split: prod.splits option.splits list.splits if_splits)

lemma get_proxy_error: "get_proxy self w = Inl e \<Longrightarrow> \<not> caught e"
  by (auto simp: get_proxy_def caught_def Let_def split: option.splits list.splits if_splits)

lemma call_again_error_step:
  assumes "\<And>d s. fetch n T f url d s = Some (Inl e, s') \<Longrightarrow> \<not> caught e"
    and "call_again n T f url proxy d s = Some (Inl e, s')"
  shows "\<not> caught e"
  using assms
  by (auto split: if_splits prod.splits sum.splits dest: switch_proxy_error get_proxy_error)

lemma fetch_error_not_caught:
  "fetch n T f url d s = Some (Inl e, s') \<Longrightarrow> \<not> caught e"
proof (induction n arbitrary: d s)
  case 0
  then show ?case by simp
next
  case (Suc n)
  obtain self w where s: "s = (self, w)" by (cases s)
  have ca: "\<not> caught e" if "call_again n T f url proxy d' s'' = Some (Inl e, s')" for proxy d' s''
    using Suc.IH that by (rule call_again_error_step)
  from Suc.prems show ?case
    unfolding s fetch_Suc
    by (auto simp del: call_again.simps split: sum.splits verdict.splits if_splits
        dest: ca classify_Throw get_proxy_error)
qed

subsection \<open>Challenge pages are retried, never returned\<close>





end
